theory Spec2Isabelle
  imports Complex_Main "HOL-Library.AList"
begin

section \<open>Python values used by the metric book-keeping of \<open>ExtendedModule\<close>\<close>

text \<open>
  Exceptions are values. \<open>InvalidUpdate\<close> is the error of the running-average meter,
  the other four are Python's own.
\<close>

datatype error = AssertionError | KeyError | ValueError | ZeroDivisionError | InvalidUpdate

text \<open>
  A Python \<open>dict\<close> with string keys is an association list in insertion order.
  \<open>d[k] = v\<close> is \<open>AList.update k v d\<close> (in place when the key exists, appended
  otherwise), \<open>k in d\<close> and \<open>d[k]\<close> are \<open>map_of d k\<close>.
\<close>

type_synonym 'v dict = "(string \<times> 'v) list"

text \<open>\<open>d.update(other)\<close>: every item of \<open>other\<close> is stored into \<open>d\<close>, in order.\<close>

definition dict_update :: "'v dict \<Rightarrow> 'v dict \<Rightarrow> 'v dict" where
  "dict_update d other = fold (\<lambda>kv acc. AList.update (fst kv) (snd kv) acc) other d"

text \<open>
  \<open>STAGES = ('train', 'val', 'test')\<close>. A stage is one of the three, so the
  \<open>KeyError\<close> of \<open>self._metrics_meter[stage]\<close> for another string has no
  counterpart here.
\<close>

datatype stage = Train | Val | Test

definition STAGES :: "stage list" where
  "STAGES = [Train, Val, Test]"

fun stage_name :: "stage \<Rightarrow> string" where
  "stage_name Train = ''train''"
| "stage_name Val = ''val''"
| "stage_name Test = ''test''"

text \<open>The argument \<open>stages\<close> of \<open>_reset_epoch_metrics\<close>: \<open>'all'\<close> or one stage.\<close>

datatype stages_arg = AllStages | OneStage stage

section \<open>The running-average meter\<close>

record meter =
  meter_sum :: real
  meter_count :: int
  meter_value :: real

text \<open>
  Modelled from the spec: the class \<open>AverageMeter\<close> of \<open>omlet.utils\<close>, which
  \<open>extended.py\<close> only calls (\<open>U.AverageMeter()\<close>, \<open>meter.reset()\<close>,
  \<open>meter.update(value, batch_size)\<close>, \<open>meter.value\<close>). The spec gives a meter an
  accumulated weighted sum, an accumulated weight and a current average, all zeroed by a
  reset; an update fails when the weight is not positive and otherwise folds the
  observation into the running weighted average.
\<close>

definition AverageMeter :: meter where
  "AverageMeter = \<lparr>meter_sum = 0, meter_count = 0, meter_value = 0\<rparr>"

definition AverageMeter_reset :: "meter \<Rightarrow> meter" where
  "AverageMeter_reset m = m\<lparr>meter_sum := 0, meter_count := 0, meter_value := 0\<rparr>"

definition AverageMeter_update :: "meter \<Rightarrow> real \<Rightarrow> int \<Rightarrow> error + meter" where
  "AverageMeter_update m v n =
     (if n \<le> 0 then Inl InvalidUpdate
      else
        let s = meter_sum m + v * real_of_int n;
            c = meter_count m + n
        in if c = 0 then Inl ZeroDivisionError
           else Inr (m\<lparr>meter_sum := s, meter_count := c, meter_value := s / real_of_int c\<rparr>))"

section \<open>The state of \<open>ExtendedModule\<close>\<close>

text \<open>An entry of \<open>_best_metrics_values\<close>: \<open>{'value': .., 'epoch': ..}\<close>.\<close>

record best_info =
  best_value :: real
  best_epoch :: int

text \<open>
  An entry of \<open>_metrics_history\<close>:
  \<open>{'epoch': .., 'train': {}, 'val': {}, 'test': {}}\<close>.
\<close>

record epoch_info =
  epoch :: int
  stage_metrics :: "stage \<Rightarrow> real dict"

text \<open>
  The attributes the book-keeping reads and writes. \<open>current_epoch\<close>,
  \<open>global_step\<close> and \<open>use_ddp\<close> belong to the wrapped framework, which sets them.
\<close>

record module =
  metrics_meter :: "stage \<Rightarrow> meter dict"
  train_step_meter :: "meter dict"
  metrics_history :: "epoch_info list"
  best_metrics_values :: "best_info dict"
  best_metrics_spec :: "string dict"
  is_training_started :: bool
  debug :: bool
  current_epoch :: int
  global_step :: int
  use_ddp :: bool

section \<open>Construction\<close>

record hparams =
  train_metrics :: "string list option"
  val_metrics :: "string list option"
  test_metrics :: "string list option"
  best_metrics :: "string dict option"
  debug_flag :: "bool option"

text \<open>\<open>{m: U.AverageMeter() for m in names}\<close>\<close>

definition new_meters :: "string list \<Rightarrow> meter dict" where
  "new_meters names = fold (\<lambda>m acc. AList.update m AverageMeter acc) names []"

text \<open>
  The loop of lines 100 to 102:
  \<open>for name, value in best_metrics.items(): assert '/' in name; assert value in ['min', 'max']\<close>
\<close>

fun check_best_metrics :: "string dict \<Rightarrow> error + unit" where
  "check_best_metrics [] = Inr ()"
| "check_best_metrics ((name, v) # rest) =
     (if CHR ''/'' \<notin> set name then Inl AssertionError
      else if v \<notin> set [''min'', ''max''] then Inl AssertionError
      else check_best_metrics rest)"

text \<open>
  The dictionary \<open>_metrics_meter\<close> filled by the loop over
  \<open>zip(STAGES, (train_metrics, val_metrics, test_metrics))\<close>.
\<close>

fun per_stage :: "'a \<Rightarrow> 'a \<Rightarrow> 'a \<Rightarrow> stage \<Rightarrow> 'a" where
  "per_stage tr va te Train = tr"
| "per_stage tr va te Val = va"
| "per_stage tr va te Test = te"

text \<open>
  \<open>__init__\<close> on a configuration (the \<open>DictConfig\<close> branch): \<open>_check_hparams\<close>
  raises \<open>KeyError\<close> for a required key that is missing and returns the default for an
  optional one. The attributes of the framework start at the framework's defaults.
\<close>

definition init :: "hparams \<Rightarrow> error + module" where
  "init h =
     (case train_metrics h of None \<Rightarrow> Inl KeyError | Some tr \<Rightarrow>
      case val_metrics h of None \<Rightarrow> Inl KeyError | Some va \<Rightarrow>
        let te = (case test_metrics h of None \<Rightarrow> va | Some t \<Rightarrow> t);
            bm = (case best_metrics h of None \<Rightarrow> [] | Some b \<Rightarrow> b);
            dbg = (case debug_flag h of None \<Rightarrow> False | Some b \<Rightarrow> b)
        in case check_best_metrics bm of
             Inl e \<Rightarrow> Inl e
           | Inr _ \<Rightarrow>
               Inr \<lparr>metrics_meter = per_stage (new_meters tr) (new_meters va) (new_meters te),
                    train_step_meter = new_meters tr,
                    metrics_history = [],
                    best_metrics_values = [],
                    best_metrics_spec = bm,
                    is_training_started = False,
                    debug = dbg,
                    current_epoch = 0,
                    global_step = 0,
                    use_ddp = False\<rparr>)"

section \<open>Metrics book-keeping\<close>

text \<open>\<open>_reset_epoch_metrics\<close>\<close>

definition reset_meters :: "meter dict \<Rightarrow> meter dict" where
  "reset_meters d = map (\<lambda>kv. (fst kv, AverageMeter_reset (snd kv))) d"

definition reset_epoch_metrics :: "stages_arg \<Rightarrow> module \<Rightarrow> module" where
  "reset_epoch_metrics stages s =
     fold (\<lambda>st acc. acc\<lparr>metrics_meter := (metrics_meter acc)(st := reset_meters (metrics_meter acc st))\<rparr>)
          (case stages of AllStages \<Rightarrow> STAGES | OneStage st \<Rightarrow> [st]) s"

text \<open>\<open>_reset_train_step_metrics\<close>\<close>

definition reset_train_step_metrics :: "module \<Rightarrow> module" where
  "reset_train_step_metrics s = s\<lparr>train_step_meter := reset_meters (train_step_meter s)\<rparr>"

text \<open>
  \<open>_get_avg_epoch_metrics\<close> with the name template \<open>'{name}'\<close>, which is the default
  and the one \<open>_epoch_end\<close> passes: the comprehension keeps the keys of the meters and
  their order.
\<close>

definition get_avg_epoch_metrics :: "stage \<Rightarrow> module \<Rightarrow> real dict" where
  "get_avg_epoch_metrics st s = map (\<lambda>kv. (fst kv, meter_value (snd kv))) (metrics_meter s st)"

text \<open>
  \<open>_update_epoch_metrics\<close>: the loop over \<open>output.items()\<close>, then the method. A key
  that is not a meter of the stage is skipped. When a meter raises, the exception leaves
  the method, and the result is the error alone.
\<close>

fun update_meters :: "real dict \<Rightarrow> int \<Rightarrow> meter dict \<Rightarrow> error + meter dict" where
  "update_meters [] batch_size d = Inr d"
| "update_meters ((key, v) # rest) batch_size d =
     (case map_of d key of
        None \<Rightarrow> update_meters rest batch_size d
      | Some m \<Rightarrow>
          (case AverageMeter_update m v batch_size of
             Inl e \<Rightarrow> Inl e
           | Inr m' \<Rightarrow> update_meters rest batch_size (AList.update key m' d)))"

definition update_epoch_metrics :: "stage \<Rightarrow> real dict \<Rightarrow> int \<Rightarrow> module \<Rightarrow> error + module" where
  "update_epoch_metrics st output batch_size s =
     (case update_meters output batch_size (metrics_meter s st) of
        Inl e \<Rightarrow> Inl e
      | Inr d \<Rightarrow> Inr (s\<lparr>metrics_meter := (metrics_meter s)(st := d)\<rparr>))"

text \<open>
  The aggregator's operation \<open>update(stage, metric_name, value, weight)\<close>: one
  observation is an output of one entry.
\<close>

definition update :: "stage \<Rightarrow> string \<Rightarrow> real \<Rightarrow> int \<Rightarrow> module \<Rightarrow> error + module" where
  "update st name v w s = update_epoch_metrics st [(name, v)] w s"

text \<open>
  The aggregator's operation \<open>epoch_average(stage)\<close> read at one metric name.
\<close>

definition epoch_average :: "stage \<Rightarrow> module \<Rightarrow> string \<Rightarrow> real option" where
  "epoch_average st s name = map_of (get_avg_epoch_metrics st s) name"

text \<open>\<open>_update_best_metrics\<close>\<close>

definition update_best_metrics :: "string \<Rightarrow> real \<Rightarrow> module \<Rightarrow> error + module" where
  "update_best_metrics metric_name new_value s =
     (case map_of (best_metrics_spec s) metric_name of
        None \<Rightarrow> Inl AssertionError
      | Some direction \<Rightarrow>
          let is_max = (direction = ''max'') in
          (case map_of (best_metrics_values s) metric_name of
             Some info \<Rightarrow>
               if (is_max \<and> new_value \<ge> best_value info) \<or> (\<not> is_max \<and> new_value \<le> best_value info)
               then Inr (s\<lparr>best_metrics_values :=
                           AList.update metric_name
                             (info\<lparr>best_value := new_value, best_epoch := current_epoch s\<rparr>)
                             (best_metrics_values s)\<rparr>)
               else Inr s
           | None \<Rightarrow>
               Inr (s\<lparr>best_metrics_values :=
                        AList.update metric_name
                          \<lparr>best_value = new_value, best_epoch = current_epoch s\<rparr>
                          (best_metrics_values s)\<rparr>)))"

text \<open>\<open>_get_best_value\<close>\<close>

definition get_best_value :: "string \<Rightarrow> module \<Rightarrow> error + real" where
  "get_best_value name s =
     (case map_of (best_metrics_values s) name of
        None \<Rightarrow> Inl KeyError
      | Some info \<Rightarrow> Inr (best_value info))"

text \<open>\<open>_add_extended_log\<close>\<close>

definition add_extended_log :: "real dict \<Rightarrow> module \<Rightarrow> real dict" where
  "add_extended_log log_dict s =
     AList.update ''system/epoch'' (real_of_int (current_epoch s))
       (AList.update ''system/global_step'' (real_of_int (global_step s)) log_dict)"

text \<open>
  \<open>reduce\<close>: the values themselves unless \<open>use_ddp\<close>; the reduction over the
  processes (\<open>omlet.utils.distributed.reduce_scalars\<close>) is a parameter.
\<close>

definition reduce :: "(real dict \<Rightarrow> real dict) \<Rightarrow> module \<Rightarrow> real dict \<Rightarrow> real dict" where
  "reduce reduce_scalars s vals = (if use_ddp s then reduce_scalars vals else vals)"

section \<open>The end of an epoch\<close>

text \<open>Python's \<open>str.split(sep)\<close> for a separator of one character.\<close>

fun split_sep :: "char \<Rightarrow> string \<Rightarrow> string list" where
  "split_sep c [] = [[]]"
| "split_sep c (x # xs) =
     (if x = c then [] # split_sep c xs
      else (case split_sep c xs of
              [] \<Rightarrow> [[x]]
            | p # ps \<Rightarrow> (x # p) # ps))"

text \<open>
  Lines 276 to 284 of \<open>_epoch_end\<close>, the aggregator's operation
  \<open>record_epoch(epoch_index, stage, averages)\<close>: the history, the epoch
  (\<open>self.current_epoch\<close>) and the averages (\<open>info_short_name\<close>) are arguments.
\<close>

definition record_epoch :: "int \<Rightarrow> stage \<Rightarrow> real dict \<Rightarrow> epoch_info list \<Rightarrow> epoch_info list" where
  "record_epoch epoch_index st info hist =
     (if length hist = 0 \<or> epoch (last hist) \<noteq> epoch_index
      then hist @ [\<lparr>epoch = epoch_index,
                    stage_metrics = (\<lambda>_. [])(st := dict_update [] info)\<rparr>]
      else butlast hist @
             [(last hist)\<lparr>stage_metrics :=
                 (stage_metrics (last hist))(st := dict_update (stage_metrics (last hist) st) info)\<rparr>])"

text \<open>
  Lines 286 to 295: the loop over \<open>info_long_name.items()\<close>, which carries the module
  and the \<open>log\<close> dictionary.
\<close>

fun best_loop :: "stage \<Rightarrow> real dict \<Rightarrow> module \<Rightarrow> real dict \<Rightarrow> error + module \<times> real dict" where
  "best_loop st [] s log_dict = Inr (s, log_dict)"
| "best_loop st ((m, new_value) # rest) s log_dict =
     (case map_of (best_metrics_spec s) m of
        None \<Rightarrow> best_loop st rest s log_dict
      | Some _ \<Rightarrow>
          (case update_best_metrics m new_value s of
             Inl e \<Rightarrow> Inl e
           | Inr s' \<Rightarrow>
               (case split_sep (CHR ''/'') m of
                  [stage', name'] \<Rightarrow>
                    if stage_name st \<noteq> stage' then Inl AssertionError
                    else (case get_best_value m s' of
                            Inl e \<Rightarrow> Inl e
                          | Inr bv \<Rightarrow>
                              best_loop st rest s'
                                (AList.update (stage' @ ''/best_'' @ name') bv log_dict))
                | _ \<Rightarrow> Inl ValueError)))"

record epoch_end_output =
  progress_bar :: "real dict"
  log_out :: "real dict"

text \<open>\<open>_epoch_end\<close>\<close>

definition epoch_end ::
  "(real dict \<Rightarrow> real dict) \<Rightarrow> stage \<Rightarrow> module \<Rightarrow> error + module \<times> epoch_end_output" where
  "epoch_end reduce_scalars st s =
     (let info = get_avg_epoch_metrics st s;
          info_short_name = reduce reduce_scalars s info;
          info_long_name = map (\<lambda>kv. (stage_name st @ ''/'' @ fst kv, snd kv)) info_short_name;
          pbar = info_long_name;
          log_dict = info_long_name;
          finish = (\<lambda>s' log_dict'.
            Inr (s', \<lparr>progress_bar = pbar,
                      log_out = add_extended_log
                                  (AList.update ''step'' (real_of_int (current_epoch s')) log_dict') s'\<rparr>))
      in if is_training_started s
         then (case best_loop st info_long_name
                      (s\<lparr>metrics_history :=
                           record_epoch (current_epoch s) st info_short_name (metrics_history s)\<rparr>)
                      log_dict of
                 Inl e \<Rightarrow> Inl e
               | Inr (s', log_dict') \<Rightarrow> finish s' log_dict')
         else finish s log_dict)"

text \<open>\<open>on_epoch_start\<close>\<close>

definition on_epoch_start :: "module \<Rightarrow> module" where
  "on_epoch_start s =
     (reset_train_step_metrics (reset_epoch_metrics AllStages s))\<lparr>is_training_started := True\<rparr>"

text \<open>
  The aggregator's operation \<open>reset(stage)\<close> is \<open>_reset_epoch_metrics\<close>, and
  \<open>update_best(metric_name, value, epoch_index)\<close> is \<open>_update_best_metrics\<close> with
  \<open>current_epoch\<close> set to the index.
\<close>

definition update_best :: "string \<Rightarrow> real \<Rightarrow> int \<Rightarrow> module \<Rightarrow> error + module" where
  "update_best metric_name v epoch_index s =
     update_best_metrics metric_name v (s\<lparr>current_epoch := epoch_index\<rparr>)"

text \<open>A sequence of \<open>update\<close> calls stops at the first one that raises.\<close>

fun updates :: "(stage \<times> string \<times> real \<times> int) list \<Rightarrow> module \<Rightarrow> error + module" where
  "updates [] s = Inr s"
| "updates ((st, name, v, w) # rest) s =
     (case update st name v w s of
        Inl e \<Rightarrow> Inl e
      | Inr s' \<Rightarrow> updates rest s')"

text \<open>A sequence of \<open>record_epoch\<close> calls on a history.\<close>

fun record_epochs :: "(int \<times> stage \<times> real dict) list \<Rightarrow> epoch_info list \<Rightarrow> epoch_info list" where
  "record_epochs [] hist = hist"
| "record_epochs ((e, st, info) # rest) hist = record_epochs rest (record_epoch e st info hist)"

section \<open>Weighted means and example inputs\<close>

text \<open>
  The observations a sequence of \<open>update\<close> calls supplies for one metric of one stage,
  as pairs of value and weight, and their weighted arithmetic mean in the spec's words.
\<close>

definition observations ::
  "stage \<Rightarrow> string \<Rightarrow> (stage \<times> string \<times> real \<times> int) list \<Rightarrow> (real \<times> int) list" where
  "observations st name calls =
     map (\<lambda>c. (fst (snd (snd c)), snd (snd (snd c))))
         (filter (\<lambda>c. fst c = st \<and> fst (snd c) = name) calls)"

definition weighted_mean :: "(real \<times> int) list \<Rightarrow> real" where
  "weighted_mean obs =
     (\<Sum>p\<leftarrow>obs. fst p * real_of_int (snd p)) / real_of_int (\<Sum>p\<leftarrow>obs. snd p)"

text \<open>The meter after one observation of positive weight.\<close>

definition fold_obs :: "meter \<Rightarrow> real \<Rightarrow> int \<Rightarrow> meter" where
  "fold_obs m v w =
     m\<lparr>meter_sum := meter_sum m + v * real_of_int w,
       meter_count := meter_count m + w,
       meter_value := (meter_sum m + v * real_of_int w) / real_of_int (meter_count m + w)\<rparr>"

text \<open>An invariant of the meters: no accumulated weight is negative.\<close>

definition counts_ok :: "module \<Rightarrow> bool" where
  "counts_ok s = (\<forall>st k m. map_of (metrics_meter s st) k = Some m \<longrightarrow> 0 \<le> meter_count m)"

text \<open>
  A configuration in the shape of the class docstring, the module built from it, and a
  module that has seen epoch 1.
\<close>

definition example_hparams :: hparams where
  "example_hparams =
     \<lparr>train_metrics = Some [''loss'', ''acc1''],
      val_metrics = Some [''loss'', ''acc1''],
      test_metrics = None,
      best_metrics = Some [(''val/acc1'', ''max''), (''val/loss'', ''min'')],
      debug_flag = None\<rparr>"

definition example_meters :: "meter dict" where
  "example_meters = [(''loss'', AverageMeter), (''acc1'', AverageMeter)]"

definition example_module :: module where
  "example_module =
     \<lparr>metrics_meter = per_stage example_meters example_meters example_meters,
      train_step_meter = example_meters,
      metrics_history = [],
      best_metrics_values = [],
      best_metrics_spec = [(''val/acc1'', ''max''), (''val/loss'', ''min'')],
      is_training_started = False,
      debug = False,
      current_epoch = 0,
      global_step = 0,
      use_ddp = False\<rparr>"

definition used_meters :: "meter dict" where
  "used_meters =
     [(''loss'', \<lparr>meter_sum = 6, meter_count = 4, meter_value = 3 / 2\<rparr>),
      (''acc1'', \<lparr>meter_sum = 280, meter_count = 4, meter_value = 70\<rparr>)]"

definition trained_module :: module where
  "trained_module =
     example_module
       \<lparr>metrics_meter := per_stage used_meters used_meters example_meters,
        metrics_history :=
          [\<lparr>epoch = 1,
            stage_metrics = per_stage [(''loss'', 2), (''acc1'', 60)] [(''loss'', 3), (''acc1'', 50)] []\<rparr>],
        best_metrics_values :=
          [(''val/acc1'', \<lparr>best_value = 50, best_epoch = 1\<rparr>),
           (''val/loss'', \<lparr>best_value = 3, best_epoch = 1\<rparr>)],
        is_training_started := True,
        current_epoch := 2\<rparr>"

definition example_calls :: "(stage \<times> string \<times> real \<times> int) list" where
  "example_calls =
     [(Train, ''loss'', 1, 2), (Val, ''loss'', 7, 3), (Train, ''acc1'', 50, 2),
      (Train, ''loss'', 4, 1), (Train, ''extra'', 9, 1)]"

section \<open>Dictionaries\<close>






lemma map_of_map_values:
  "map_of (map (\<lambda>kv. (fst kv, f (snd kv))) d) k = map_option f (map_of d k)"
  by (induction d) auto

section \<open>Meters: reset, update, average\<close>

lemma reset_all_meters:
  "metrics_meter (reset_epoch_metrics AllStages s) st = reset_meters (metrics_meter s st)"
  by (cases st) (simp_all add: reset_epoch_metrics_def STAGES_def)

lemma reset_one_meters:
  "metrics_meter (reset_epoch_metrics (OneStage st0) s) st =
     (if st = st0 then reset_meters (metrics_meter s st) else metrics_meter s st)"
  by (simp add: reset_epoch_metrics_def)

lemma map_of_reset_meters:
  "map_of (reset_meters d) k = map_option AverageMeter_reset (map_of d k)"
  by (simp add: reset_meters_def map_of_map_values)

lemma counts_ok_reset: "counts_ok (reset_epoch_metrics AllStages s)"
  by (auto simp: counts_ok_def reset_all_meters map_of_reset_meters AverageMeter_reset_def)

lemma map_of_get_avg:
  "map_of (get_avg_epoch_metrics st s) k = map_option meter_value (map_of (metrics_meter s st) k)"
  by (simp add: get_avg_epoch_metrics_def map_of_map_values)

lemma AverageMeter_update_pos:
  "0 \<le> meter_count m \<Longrightarrow> 0 < w \<Longrightarrow> AverageMeter_update m v w = Inr (fold_obs m v w)"
  by (simp add: AverageMeter_update_def fold_obs_def Let_def)

lemma update_known:
  assumes "map_of (metrics_meter s st) name = Some m" "0 \<le> meter_count m" "0 < w"
  shows "update st name v w s =
           Inr (s\<lparr>metrics_meter :=
                   (metrics_meter s)(st := AList.update name (fold_obs m v w) (metrics_meter s st))\<rparr>)"
  using assms by (simp add: update_def update_epoch_metrics_def AverageMeter_update_pos)

lemma update_skipped:
  assumes "map_of (metrics_meter s st) name = None"
  shows "update st name v w s = Inr s"
  using assms by (simp add: update_def update_epoch_metrics_def)

text \<open>
  \<open>_update_epoch_metrics\<close> on an output of several entries is the sequence of the
  \<open>update\<close> calls of its entries, with the batch size as the weight of each.
\<close>

lemma update_epoch_metrics_as_updates:
  "update_epoch_metrics st out w s = updates (map (\<lambda>kv. (st, fst kv, snd kv, w)) out) s"
proof (induction out arbitrary: s)
  case Nil
  then show ?case by (simp add: update_epoch_metrics_def)
next
  case (Cons kv out)
  obtain k v where kv: "kv = (k, v)" by (cases kv) auto
  show ?case
  proof (cases "update_meters [(k, v)] w (metrics_meter s st)")
    case (Inl e)
    then show ?thesis using kv
      by (simp add: update_def update_epoch_metrics_def split: option.splits sum.splits)
  next
    case (Inr d')
    let ?s1 = "s\<lparr>metrics_meter := (metrics_meter s)(st := d')\<rparr>"
    have 1: "update st k v w s = Inr ?s1"
      using Inr by (simp add: update_def update_epoch_metrics_def)
    have 2: "update_epoch_metrics st (kv # out) w s = update_epoch_metrics st out w ?s1"
      using Inr kv by (auto simp: update_epoch_metrics_def split: option.splits sum.splits)
    show ?thesis using 1 2 Cons.IH [of ?s1] kv by simp
  qed
qed

text \<open>
  One update of positive weight succeeds, keeps the invariant and changes the meter of
  its stage and name only.
\<close>

lemma update_step:
  assumes "counts_ok s" "0 < w"
  shows "\<exists>s'. update st name v w s = Inr s' \<and> counts_ok s' \<and>
           (\<forall>st' k. map_of (metrics_meter s' st') k =
              (if st' = st \<and> k = name
               then map_option (\<lambda>m. fold_obs m v w) (map_of (metrics_meter s st) name)
               else map_of (metrics_meter s st') k))"
proof (cases "map_of (metrics_meter s st) name")
  case None
  then show ?thesis using assms by (simp add: update_skipped)
next
  case (Some m)
  with assms have c: "0 \<le> meter_count m" by (auto simp: counts_ok_def)
  let ?s' = "s\<lparr>metrics_meter :=
                 (metrics_meter s)(st := AList.update name (fold_obs m v w) (metrics_meter s st))\<rparr>"
  have u: "update st name v w s = Inr ?s'" by (rule update_known [OF Some c assms(2)])
  have l: "\<forall>st' k. map_of (metrics_meter ?s' st') k =
              (if st' = st \<and> k = name
               then map_option (\<lambda>m. fold_obs m v w) (map_of (metrics_meter s st) name)
               else map_of (metrics_meter s st') k)"
    using Some by (simp add: update_conv')
  have "0 \<le> meter_count (fold_obs m v w)" using c assms(2) by (simp add: fold_obs_def)
  then have "counts_ok ?s'" using assms(1) Some
    by (auto simp: counts_ok_def update_conv' split: if_splits)
  with u l show ?thesis by blast
qed

text \<open>
  A sequence of updates of positive weights succeeds, and a meter holds the sums over
  its own observations.
\<close>

lemma updates_track:
  assumes "counts_ok s" "\<forall>c \<in> set calls. 0 < snd (snd (snd c))"
    "map_of (metrics_meter s st) name = Some m"
  shows "\<exists>s' m'. updates calls s = Inr s' \<and>
           map_of (metrics_meter s' st) name = Some m' \<and>
           meter_sum m' =
             meter_sum m + (\<Sum>p\<leftarrow>observations st name calls. fst p * real_of_int (snd p)) \<and>
           meter_count m' = meter_count m + (\<Sum>p\<leftarrow>observations st name calls. snd p) \<and>
           meter_value m' = (if observations st name calls = [] then meter_value m
                             else meter_sum m' / real_of_int (meter_count m'))"
  using assms
proof (induction calls arbitrary: s m)
  case Nil
  then show ?case by (simp add: observations_def)
next
  case (Cons c calls)
  obtain st1 n1 v w where c: "c = (st1, n1, v, w)" by (cases c) auto
  with Cons.prems have w: "0 < w" by simp
  from Cons.prems have pos: "\<forall>c \<in> set calls. 0 < snd (snd (snd c))" by simp
  from update_step [OF Cons.prems(1) w, of st1 n1 v]
  obtain s1 where s1: "update st1 n1 v w s = Inr s1" "counts_ok s1"
    and look: "\<And>st' k. map_of (metrics_meter s1 st') k =
              (if st' = st1 \<and> k = n1
               then map_option (\<lambda>m. fold_obs m v w) (map_of (metrics_meter s st1) n1)
               else map_of (metrics_meter s st') k)"
    by blast
  show ?case
  proof (cases "st1 = st \<and> n1 = name")
    case True
    have m1: "map_of (metrics_meter s1 st) name = Some (fold_obs m v w)"
      using look [of st name] True Cons.prems(3) by simp
    have o: "observations st name (c # calls) = (v, w) # observations st name calls"
      using c True by (simp add: observations_def)
    from Cons.IH [OF s1(2) pos m1]
    show ?thesis using s1 c o by (auto simp: fold_obs_def algebra_simps)
  next
    case False
    have m1: "map_of (metrics_meter s1 st) name = Some m"
      using look [of st name] False Cons.prems(3) by auto
    have o: "observations st name (c # calls) = observations st name calls"
      using c False by (auto simp: observations_def)
    from Cons.IH [OF s1(2) pos m1]
    show ?thesis using s1 c o by auto
  qed
qed

text \<open>
  Claim C1. After a reset, every sequence of \<open>update\<close> calls with positive weights
  succeeds, and for every stage and every metric name configured for it that received
  at least one observation, \<open>epoch_average\<close> of that name is the weighted arithmetic
  mean of the values supplied for it, with their weights. Values are real numbers here.
\<close>

theorem epoch_average_weighted_mean:
  assumes "\<forall>c \<in> set calls. 0 < snd (snd (snd c))"
    and "map_of (metrics_meter s0 st) name \<noteq> None"
    and "observations st name calls \<noteq> []"
  shows "\<exists>s'. updates calls (reset_epoch_metrics AllStages s0) = Inr s' \<and>
           epoch_average st s' name = Some (weighted_mean (observations st name calls))"
proof -
  from assms(2) obtain m0 where m0: "map_of (metrics_meter s0 st) name = Some m0" by auto
  let ?s = "reset_epoch_metrics AllStages s0"
  have m: "map_of (metrics_meter ?s st) name = Some (AverageMeter_reset m0)"
    by (simp add: reset_all_meters map_of_reset_meters m0)
  from updates_track [OF counts_ok_reset assms(1) m]
  obtain s' m' where r: "updates calls ?s = Inr s'"
    "map_of (metrics_meter s' st) name = Some m'"
    "meter_sum m' = meter_sum (AverageMeter_reset m0) +
       (\<Sum>p\<leftarrow>observations st name calls. fst p * real_of_int (snd p))"
    "meter_count m' = meter_count (AverageMeter_reset m0) +
       (\<Sum>p\<leftarrow>observations st name calls. snd p)"
    "meter_value m' = (if observations st name calls = [] then meter_value (AverageMeter_reset m0)
                       else meter_sum m' / real_of_int (meter_count m'))"
    by blast
  have "meter_value m' = weighted_mean (observations st name calls)"
    using r(3,4,5) assms(3) by (simp add: weighted_mean_def AverageMeter_reset_def)
  with r(1,2) show ?thesis by (auto simp: epoch_average_def map_of_get_avg)
qed

theorem epoch_average_weighted_mean_witness:
  "list_all (\<lambda>c. 0 < snd (snd (snd c))) example_calls \<and>
   map_of (metrics_meter trained_module Train) ''loss'' \<noteq> None \<and>
   observations Train ''loss'' example_calls = [(1, 2), (4, 1)] \<and>
   (\<exists>s'. updates example_calls (reset_epoch_metrics AllStages trained_module) = Inr s' \<and>
         epoch_average Train s' ''loss'' = Some 2)"
  using epoch_average_weighted_mean [of example_calls trained_module Train "''loss''"]
  by (simp add: example_calls_def trained_module_def used_meters_def observations_def
      weighted_mean_def)


section \<open>Best values\<close>

text \<open>
  Claim C2. For a metric of the Best-Metric Spec with direction \<open>max\<close> or \<open>min\<close>,
  \<open>update_best\<close> succeeds and changes the entry of that metric only. The first
  observation is stored with its epoch. A later observation replaces the stored value
  and epoch exactly when it is at least as good (\<open>\<ge>\<close> for \<open>max\<close>, \<open>\<le>\<close> for
  \<open>min\<close>): a tie keeps the value and moves the epoch to the newer occurrence, a
  strictly worse value leaves value and epoch as they were.
\<close>

theorem update_best_accepts:
  assumes "map_of (best_metrics_spec s) name = Some d" and "d = ''max'' \<or> d = ''min''"
  shows "\<exists>s'. update_best name v e s = Inr s' \<and>
           (\<forall>other. other \<noteq> name \<longrightarrow>
              map_of (best_metrics_values s') other = map_of (best_metrics_values s) other) \<and>
           (case map_of (best_metrics_values s) name of
              None \<Rightarrow>
                map_of (best_metrics_values s') name = Some \<lparr>best_value = v, best_epoch = e\<rparr>
            | Some info \<Rightarrow>
                map_of (best_metrics_values s') name =
                  Some (if (d = ''max'' \<and> v \<ge> best_value info) \<or> (d = ''min'' \<and> v \<le> best_value info)
                        then \<lparr>best_value = v, best_epoch = e\<rparr> else info) \<and>
                (v = best_value info \<longrightarrow>
                   map_of (best_metrics_values s') name =
                     Some \<lparr>best_value = best_value info, best_epoch = e\<rparr>) \<and>
                ((d = ''max'' \<and> v < best_value info) \<or> (d = ''min'' \<and> v > best_value info) \<longrightarrow>
                   map_of (best_metrics_values s') name = Some info))"
  using assms
  by (auto simp: update_best_def update_best_metrics_def Let_def update_conv' split: option.splits)

theorem update_best_accepts_witness:
  "map_of (best_metrics_spec trained_module) ''val/loss'' = Some ''min'' \<and>
   (\<exists>s'. update_best ''val/loss'' 3 2 trained_module = Inr s' \<and>
         map_of (best_metrics_values s') ''val/acc1'' = Some \<lparr>best_value = 50, best_epoch = 1\<rparr> \<and>
         map_of (best_metrics_values s') ''val/loss'' = Some \<lparr>best_value = 3, best_epoch = 2\<rparr>)"
  using update_best_accepts [of trained_module "''val/loss''" "''min''" 3 2]
  by (auto simp: trained_module_def example_module_def)

text \<open>
  Claim C6. For a metric name that is not a key of the Best-Metric Spec,
  \<open>_update_best_metrics\<close>, and so \<open>update_best\<close>, raises at the call: the assertion
  of its first line fails.
\<close>

theorem update_best_missing:
  assumes "map_of (best_metrics_spec s) metric_name = None"
  shows "update_best_metrics metric_name v s = Inl AssertionError \<and>
         update_best metric_name v e s = Inl AssertionError"
  using assms by (simp add: update_best_def update_best_metrics_def)

theorem update_best_missing_witness:
  "map_of (best_metrics_spec trained_module) ''missing/metric'' = None \<and>
   update_best_metrics ''missing/metric'' 1 trained_module = Inl AssertionError \<and>
   update_best ''missing/metric'' 1 1 trained_module = Inl AssertionError"
  using update_best_missing [of trained_module "''missing/metric''" 1 1]
  by (simp add: trained_module_def example_module_def)

section \<open>The history of epochs\<close>

lemma epochs_record_epoch:
  "map epoch (record_epoch e st info hist) =
     (if hist = [] \<or> epoch (last hist) \<noteq> e then map epoch hist @ [e] else map epoch hist)"
  by (cases hist rule: rev_cases) (auto simp: record_epoch_def)

lemma last_record_epoch: "epoch (last (record_epoch e st info hist)) = e"
  by (simp add: record_epoch_def)

lemma record_epoch_nonempty: "record_epoch e st info hist \<noteq> []"
  by (simp add: record_epoch_def)




lemma record_epoch_increasing:
  assumes "sorted_wrt (<) (map epoch hist)" "hist \<noteq> [] \<longrightarrow> epoch (last hist) \<le> e"
  shows "sorted_wrt (<) (map epoch (record_epoch e st info hist))"
proof (cases hist rule: rev_cases)
  case Nil
  then show ?thesis by (simp add: epochs_record_epoch)
next
  case (snoc ys y)
  with assms have "\<forall>z \<in> set ys. epoch z < epoch y" and "epoch y \<le> e"
    by (auto simp: sorted_wrt_append)
  with assms snoc show ?thesis
    by (auto simp: epochs_record_epoch sorted_wrt_append)
qed

text \<open>
  Claim C4, as stated, fails: \<open>record_epoch\<close> compares the index with the last record
  only, so an index below the last one is appended after it, and an index seen before
  the last one is recorded twice.
\<close>

theorem record_epochs_not_increasing:
  "\<not> sorted_wrt (<) (map epoch (record_epochs [(1, Train, []), (0, Train, []), (1, Val, [])] [])) \<and>
   \<not> distinct (map epoch (record_epochs [(1, Train, []), (0, Train, []), (1, Val, [])] []))"
  by (simp add: epochs_record_epoch record_epoch_nonempty last_record_epoch)

text \<open>
  Claim C4, amended. When the epoch indices of the \<open>record_epoch\<close> calls never
  decrease and start at or above the last index of a strictly increasing history, the
  history stays strictly increasing by epoch index, and no two records share an index.
\<close>

theorem record_epochs_increasing:
  assumes "sorted_wrt (<) (map epoch hist)"
    and "sorted (map fst calls)"
    and "hist \<noteq> [] \<longrightarrow> (\<forall>c \<in> set calls. epoch (last hist) \<le> fst c)"
  shows "sorted_wrt (<) (map epoch (record_epochs calls hist)) \<and>
         distinct (map epoch (record_epochs calls hist))"
proof -
  have "sorted_wrt (<) (map epoch (record_epochs calls hist))"
    using assms
  proof (induction calls arbitrary: hist)
    case Nil
    then show ?case by simp
  next
    case (Cons c calls)
    obtain e st info where c: "c = (e, st, info)" by (cases c) auto
    have 1: "sorted_wrt (<) (map epoch (record_epoch e st info hist))"
      using Cons.prems c by (intro record_epoch_increasing) auto
    have 2: "sorted (map fst calls)" using Cons.prems by simp
    have 3: "record_epoch e st info hist \<noteq> [] \<longrightarrow>
             (\<forall>c' \<in> set calls. epoch (last (record_epoch e st info hist)) \<le> fst c')"
      using Cons.prems(2) c by (auto simp: last_record_epoch)
    from Cons.IH [OF 1 2 3] show ?case using c by simp
  qed
  then show ?thesis by (simp add: strict_sorted_iff)
qed

theorem record_epochs_increasing_witness:
  "sorted_wrt (<) (map epoch (metrics_history trained_module)) \<and>
   sorted (map fst [(1, Test, [(''loss'', 4)]), (2, Train, [(''loss'', 1)]), (2 :: int, Val, [(''loss'', 2 :: real)])]) \<and>
   map epoch (record_epochs [(1, Test, [(''loss'', 4)]), (2, Train, [(''loss'', 1)]), (2, Val, [(''loss'', 2)])]
                (metrics_history trained_module)) = [1, 2] \<and>
   sorted_wrt (<) (map epoch (record_epochs [(1, Test, [(''loss'', 4)]), (2, Train, [(''loss'', 1)]), (2, Val, [(''loss'', 2)])]
                (metrics_history trained_module)))"
  using record_epochs_increasing [of "metrics_history trained_module"
      "[(1, Test, [(''loss'', 4)]), (2, Train, [(''loss'', 1)]), (2, Val, [(''loss'', 2)])]"]
  by (simp add: trained_module_def example_module_def epochs_record_epoch record_epoch_nonempty
      last_record_epoch)

section \<open>Updates that are skipped or refused\<close>

text \<open>
  Claim C5. For a metric name that is not a meter of the stage, \<open>update\<close> raises
  nothing and returns the module as it was, whatever the value and the weight: the
  averages of every stage are those before the call.
\<close>

theorem update_unknown_noop:
  assumes "map_of (metrics_meter s st) name = None"
  shows "update st name v w s = Inr s"
  using assms by (simp add: update_def update_epoch_metrics_def)

theorem update_unknown_noop_witness:
  "map_of (metrics_meter trained_module Val) ''unknown_metric'' = None \<and>
   update Val ''unknown_metric'' 1 1 trained_module = Inr trained_module"
  using update_unknown_noop [of trained_module Val "''unknown_metric''" 1 1]
  by (simp add: trained_module_def used_meters_def)

text \<open>
  Claim C7. For a metric name that is a meter of the stage and a weight \<open>w \<le> 0\<close>,
  \<open>update\<close> raises at the call. The error is the meter's: \<open>_update_epoch_metrics\<close>
  itself does not look at the weight.
\<close>

theorem update_nonpositive_weight:
  assumes "map_of (metrics_meter s st) name = Some m" and "w \<le> 0"
  shows "update st name v w s = Inl InvalidUpdate"
  using assms by (simp add: update_def update_epoch_metrics_def AverageMeter_update_def)

theorem update_nonpositive_weight_witness:
  "map_of (metrics_meter trained_module Val) ''loss'' =
     Some \<lparr>meter_sum = 6, meter_count = 4, meter_value = 3 / 2\<rparr> \<and>
   update Val ''loss'' 1 0 trained_module = Inl InvalidUpdate"
  using update_nonpositive_weight [of trained_module Val "''loss''"
      "\<lparr>meter_sum = 6, meter_count = 4, meter_value = 3 / 2\<rparr>" 0 1]
  by (simp add: trained_module_def used_meters_def)

section \<open>Construction\<close>

lemma check_best_metrics_bad:
  "(name, d) \<in> set bm \<Longrightarrow> CHR ''/'' \<notin> set name \<or> d \<noteq> ''min'' \<and> d \<noteq> ''max'' \<Longrightarrow>
   check_best_metrics bm = Inl AssertionError"
  by (induction bm rule: check_best_metrics.induct) auto

lemma check_best_metrics_good:
  "check_best_metrics bm = Inr u \<Longrightarrow> (name, d) \<in> set bm \<Longrightarrow>
   CHR ''/'' \<in> set name \<and> (d = ''min'' \<or> d = ''max'')"
  by (induction bm rule: check_best_metrics.induct) (auto split: if_splits)

lemma init_example: "init example_hparams = Inr example_module"
  by (simp add: init_def example_hparams_def example_module_def example_meters_def new_meters_def)

lemma init_not_started: "init h = Inr s \<Longrightarrow> \<not> is_training_started s"
  by (auto simp: init_def Let_def split: option.splits sum.splits)

lemma init_spec_well_formed:
  assumes "init h = Inr s" and "(name, d) \<in> set (best_metrics_spec s)"
  shows "CHR ''/'' \<in> set name \<and> (d = ''min'' \<or> d = ''max'')"
  using assms
  by (auto simp: init_def Let_def split: option.splits sum.splits dest: check_best_metrics_good)

text \<open>
  Claim C8. When an entry of the Best-Metric Spec has a name without \<open>/\<close> or a
  direction other than \<open>min\<close> and \<open>max\<close>, construction raises: the assertion error
  of the loop over the entries, or the key error of a required key that is missing,
  which comes first. No module is built.
\<close>

theorem init_rejects_malformed:
  assumes "best_metrics h = Some bm" and "(name, d) \<in> set bm"
    and "CHR ''/'' \<notin> set name \<or> d \<noteq> ''min'' \<and> d \<noteq> ''max''"
  shows "init h = (if train_metrics h = None \<or> val_metrics h = None
                   then Inl KeyError else Inl AssertionError)"
  using assms check_best_metrics_bad [OF assms(2,3)]
  by (auto simp: init_def Let_def split: option.splits)

theorem init_rejects_malformed_witness:
  "init (example_hparams\<lparr>best_metrics := Some [(''val/acc1'', ''max''), (''val/loss'', ''minimum'')]\<rparr>)
     = Inl AssertionError \<and>
   init (example_hparams\<lparr>best_metrics := Some [(''acc1'', ''max'')]\<rparr>) = Inl AssertionError"
  using init_rejects_malformed [of
      "example_hparams\<lparr>best_metrics := Some [(''val/acc1'', ''max''), (''val/loss'', ''minimum'')]\<rparr>"
      "[(''val/acc1'', ''max''), (''val/loss'', ''minimum'')]" "''val/loss''" "''minimum''"]
  by (simp add: example_hparams_def init_def)

section \<open>Reset\<close>

text \<open>
  Claim C9. After a reset of a stage, of all stages, or the start of an epoch, the
  averages of the stage are zero for every meter of the stage, whatever the meters held
  before.
\<close>

theorem reset_zeroes_averages:
  "get_avg_epoch_metrics st (reset_epoch_metrics (OneStage st) s) =
     map (\<lambda>kv. (fst kv, 0)) (metrics_meter s st) \<and>
   get_avg_epoch_metrics st (reset_epoch_metrics AllStages s) =
     map (\<lambda>kv. (fst kv, 0)) (metrics_meter s st) \<and>
   get_avg_epoch_metrics st (on_epoch_start s) =
     map (\<lambda>kv. (fst kv, 0)) (metrics_meter s st)"
  by (simp add: get_avg_epoch_metrics_def reset_all_meters reset_one_meters reset_meters_def
      on_epoch_start_def reset_train_step_metrics_def AverageMeter_reset_def)

theorem reset_zeroes_averages_witness:
  "get_avg_epoch_metrics Val trained_module = [(''loss'', 3 / 2), (''acc1'', 70)] \<and>
   get_avg_epoch_metrics Val (reset_epoch_metrics (OneStage Val) trained_module) =
     [(''loss'', 0), (''acc1'', 0)] \<and>
   get_avg_epoch_metrics Val (on_epoch_start trained_module) = [(''loss'', 0), (''acc1'', 0)]"
  using reset_zeroes_averages [of Val trained_module]
  by (simp add: trained_module_def used_meters_def get_avg_epoch_metrics_def)

section \<open>The end of an epoch\<close>

lemma update_best_metrics_frame:
  "update_best_metrics m v s = Inr s' \<Longrightarrow>
   metrics_history s' = metrics_history s \<and> best_metrics_spec s' = best_metrics_spec s \<and>
   current_epoch s' = current_epoch s \<and> metrics_meter s' = metrics_meter s"
  by (auto simp: update_best_metrics_def Let_def split: option.splits if_splits)

lemma best_loop_frame:
  "best_loop st items s lg = Inr (s', lg') \<Longrightarrow>
   metrics_history s' = metrics_history s \<and> best_metrics_spec s' = best_metrics_spec s \<and>
   current_epoch s' = current_epoch s \<and> metrics_meter s' = metrics_meter s"
proof (induction st items s lg rule: best_loop.induct)
  case (1 st s lg)
  then show ?case by simp
next
  case (2 st m new_value rest s lg)
  show ?case
  proof (cases "map_of (best_metrics_spec s) m")
    case None
    with 2 show ?thesis by simp
  next
    case (Some d)
    from "2.prems" Some obtain s1 where s1: "update_best_metrics m new_value s = Inr s1"
      by (auto split: sum.splits)
    from "2.prems" Some s1 obtain stage' name' where sp: "split_sep (CHR ''/'') m = [stage', name']"
      by (auto split: list.splits)
    from "2.prems" Some s1 sp have sn: "stage_name st = stage'"
      by (auto split: if_splits)
    from "2.prems" Some s1 sp sn obtain bv where bv: "get_best_value m s1 = Inr bv"
      by (auto split: sum.splits)
    from "2.prems" Some s1 sp sn bv
    have rest: "best_loop st rest s1 (AList.update (stage' @ ''/best_'' @ name') bv lg) = Inr (s', lg')"
      by simp
    have "metrics_history s' = metrics_history s1 \<and> best_metrics_spec s' = best_metrics_spec s1 \<and>
          current_epoch s' = current_epoch s1 \<and> metrics_meter s' = metrics_meter s1"
      by (rule "2.IH"(2) [OF Some s1 sp refl refl _ bv rest]) (simp add: sn)
    with update_best_metrics_frame [OF s1] show ?thesis by simp
  qed
qed

text \<open>Once training has started, the history after \<open>_epoch_end\<close> is \<open>record_epoch\<close>'s.\<close>

lemma epoch_end_records_epoch:
  assumes "is_training_started s" and "epoch_end reduce_scalars st s = Inr (s', out)"
  shows "metrics_history s' =
           record_epoch (current_epoch s) st (reduce reduce_scalars s (get_avg_epoch_metrics st s))
             (metrics_history s)"
  using assms
  by (auto simp: epoch_end_def Let_def split: sum.splits dest!: best_loop_frame)

text \<open>
  Claim C10. While the flag \<open>_is_training_started\<close> is unset, as it is from
  construction until the first \<open>on_epoch_start\<close>, \<open>_epoch_end\<close> returns its output
  and leaves the module as it was: the history and the best values are unchanged.
\<close>

theorem epoch_end_before_training:
  assumes "\<not> is_training_started s"
  shows "\<exists>out. epoch_end reduce_scalars st s = Inr (s, out)"
  using assms by (simp add: epoch_end_def Let_def)

theorem epoch_end_before_training_witness:
  "init example_hparams = Inr example_module \<and>
   \<not> is_training_started example_module \<and>
   is_training_started (on_epoch_start example_module) \<and>
   (\<exists>out. epoch_end id Val example_module = Inr (example_module, out))"
  using epoch_end_before_training [of example_module id Val]
  by (simp add: init_example) (simp add: example_module_def on_epoch_start_def reset_train_step_metrics_def)

end
